theory Spec2Isabelle
  imports Main "HOL-Library.Sublist"
begin

section \<open>JavaScript values\<close>

text \<open>
  The values that flow through the connect pipeline and the selector hook. Objects and
  functions carry the address of their heap cell, so that reference identity (\<open>===\<close>)
  and structural content are kept apart: two objects with the same properties at different
  addresses are different values. Numbers are integers (no NaN, no fractions).
\<close>

datatype jsval =
    JUndefined
  | JNull
  | JBool bool
  | JNum int
  | JStr string
  | JObj nat "(string \<times> jsval) list"
  | JFunc nat

text \<open>\<open>Boolean(x)\<close>, which is also the truthiness an \<open>if\<close> tests.\<close>

fun Boolean :: "jsval \<Rightarrow> bool" where
  "Boolean JUndefined = False"
| "Boolean JNull = False"
| "Boolean (JBool b) = b"
| "Boolean (JNum n) = (n \<noteq> 0)"
| "Boolean (JStr s) = (s \<noteq> [])"
| "Boolean (JObj a ps) = True"
| "Boolean (JFunc a) = True"

text \<open>\<open>a === b\<close>: primitives by value, objects and functions by address.\<close>

fun strict_eq :: "jsval \<Rightarrow> jsval \<Rightarrow> bool" where
  "strict_eq (JObj a ps) (JObj b qs) = (a = b)"
| "strict_eq x y = (x = y)"

section \<open>wrapMapToProps: the MapToProps adapter\<close>

text \<open>
  A user-supplied \<open>mapStateToProps\<close> or \<open>mapDispatchToProps\<close>: its declared arity
  (\<open>f.length\<close>), its \<open>dependsOnOwnProps\<close> property (\<open>JUndefined\<close> when the property
  is absent) and its body, a function of the argument list it is called with. The body
  returns either a value or another function (the factory pattern that
  \<open>typeof props === 'function'\<close> detects). User functions are taken to return
  normally and to depend on their arguments only.
\<close>

datatype jsfun =
    JsFun (fn_length: nat) (fn_dependsOnOwnProps: jsval) (fn_body: "jsval list \<Rightarrow> ret")
and ret =
    Props jsval
  | Function jsfun

text \<open>Every call of a user function is recorded, with the arguments it received.\<close>

datatype call = Call jsfun "jsval list"

definition invoke :: "jsfun \<Rightarrow> jsval list \<Rightarrow> call list \<Rightarrow> ret \<times> call list" where
  "invoke f args tr = (fn_body f args, tr @ [Call f args])"

definition getDependsOnOwnProps :: "jsfun \<Rightarrow> bool" where
  "getDependsOnOwnProps mapToProps =
     (if \<not> strict_eq (fn_dependsOnOwnProps mapToProps) JNull
         \<and> \<not> strict_eq (fn_dependsOnOwnProps mapToProps) JUndefined
      then Boolean (fn_dependsOnOwnProps mapToProps)
      else fn_length mapToProps \<noteq> 1)"

text \<open>
  The proxy object built by \<open>initProxySelector\<close>: a function with the two mutable
  properties \<open>dependsOnOwnProps\<close> and \<open>mapToProps\<close>. The latter holds either the
  adapter's own \<open>detectFactoryAndVerify\<close> or a user function.
\<close>

datatype active = DetectFactoryAndVerify | Mapper jsfun

record proxy =
  dependsOnOwnProps :: bool
  mapToProps :: active

definition initProxySelector :: proxy where
  "initProxySelector = \<lparr> dependsOnOwnProps = True, mapToProps = DetectFactoryAndVerify \<rparr>"

text \<open>
  The argument list the proxy hands to its active function:
  \<open>proxy.dependsOnOwnProps ? (stateOrDispatch, ownProps) : (stateOrDispatch)\<close>.
\<close>

definition passedArgs :: "bool \<Rightarrow> jsval \<Rightarrow> jsval \<Rightarrow> jsval list" where
  "passedArgs dep stateOrDispatch ownProps =
     (if dep then [stateOrDispatch, ownProps] else [stateOrDispatch])"

text \<open>
  The body of \<open>mapToPropsProxy\<close> when \<open>proxy.mapToProps\<close> is the user function
  \<open>f\<close>.
\<close>

definition callMapper ::
  "proxy \<Rightarrow> jsfun \<Rightarrow> jsval \<Rightarrow> jsval \<Rightarrow> call list \<Rightarrow> ret \<times> call list" where
  "callMapper p f stateOrDispatch ownProps tr =
     invoke f (passedArgs (dependsOnOwnProps p) stateOrDispatch ownProps) tr"

text \<open>
  \<open>detectFactoryAndVerify\<close>, closed over the wrapped \<open>mapToProps\<close>. Both inner calls
  \<open>proxy(stateOrDispatch, ownProps)\<close> run just after \<open>proxy.mapToProps\<close> was set to
  a user function, so they are \<open>callMapper\<close>. \<open>verifyPlainObject\<close> only prints a
  warning outside production and is left out.
\<close>

definition detectFactoryAndVerify ::
  "jsfun \<Rightarrow> proxy \<Rightarrow> jsval \<Rightarrow> jsval \<Rightarrow> call list \<Rightarrow> ret \<times> proxy \<times> call list" where
  "detectFactoryAndVerify mapToProps0 p stateOrDispatch ownProps tr =
     (let p1 = p\<lparr> mapToProps := Mapper mapToProps0,
                  dependsOnOwnProps := getDependsOnOwnProps mapToProps0 \<rparr>;
          (props, tr1) = callMapper p1 mapToProps0 stateOrDispatch ownProps tr
      in case props of
           Function g \<Rightarrow>
             (let p2 = p1\<lparr> mapToProps := Mapper g,
                           dependsOnOwnProps := getDependsOnOwnProps g \<rparr>;
                  (props2, tr2) = callMapper p2 g stateOrDispatch ownProps tr1
              in (props2, p2, tr2))
         | Props v \<Rightarrow> (props, p1, tr1))"

text \<open>
  \<open>mapToPropsProxy\<close>: the proxy called with \<open>(stateOrDispatch, ownProps)\<close>. When
  \<open>proxy.dependsOnOwnProps\<close> is false the active function is called with one argument,
  so \<open>detectFactoryAndVerify\<close> would see \<open>ownProps\<close> undefined.
\<close>

definition mapToPropsProxy ::
  "jsfun \<Rightarrow> proxy \<Rightarrow> jsval \<Rightarrow> jsval \<Rightarrow> call list \<Rightarrow> ret \<times> proxy \<times> call list" where
  "mapToPropsProxy mapToProps0 p stateOrDispatch ownProps tr =
     (case mapToProps p of
        DetectFactoryAndVerify \<Rightarrow>
          (if dependsOnOwnProps p
           then detectFactoryAndVerify mapToProps0 p stateOrDispatch ownProps tr
           else detectFactoryAndVerify mapToProps0 p stateOrDispatch JUndefined tr)
      | Mapper f \<Rightarrow>
          (let (props, tr1) = callMapper p f stateOrDispatch ownProps tr
           in (props, p, tr1)))"

text \<open>A run of the proxy on a list of \<open>(stateOrDispatch, ownProps)\<close> inputs.\<close>

fun proxyRun ::
  "jsfun \<Rightarrow> (jsval \<times> jsval) list \<Rightarrow> proxy \<Rightarrow> call list \<Rightarrow> proxy \<times> call list" where
  "proxyRun mapToProps0 [] p tr = (p, tr)"
| "proxyRun mapToProps0 ((s, ownp) # rest) p tr =
     (case mapToPropsProxy mapToProps0 p s ownp tr of
        (r, p', tr') \<Rightarrow> proxyRun mapToProps0 rest p' tr')"

text \<open>\<open>wrapMapToPropsConstant\<close>: \<open>constantSelector\<close> ignores its arguments.\<close>

definition constantSelector :: "jsval \<Rightarrow> jsfun" where
  "constantSelector constant = JsFun 0 (JBool False) (\<lambda>args. Props constant)"

section \<open>mergeProps: the merge wrapper\<close>

text \<open>
  The closure of \<open>initMergePropsProxy\<close>: \<open>hasRunOnce\<close> and the cached
  \<open>mergedProps\<close> (undefined until the first call).
\<close>

record mergeClosure =
  hasRunOnce :: bool
  cachedMergedProps :: jsval

definition initMergePropsProxy :: mergeClosure where
  "initMergePropsProxy = \<lparr> hasRunOnce = False, cachedMergedProps = JUndefined \<rparr>"

text \<open>
  \<open>mergePropsProxy\<close>, closed over the user's \<open>mergeProps\<close> and the options
  \<open>pure\<close> and \<open>areMergedPropsEqual\<close>. It returns the value of the closure variable
  \<open>mergedProps\<close> after the update. The first-run \<open>verifyPlainObject\<close> only prints
  a warning and is left out.
\<close>

definition mergePropsProxy ::
  "(jsval \<Rightarrow> jsval \<Rightarrow> jsval \<Rightarrow> jsval) \<Rightarrow> bool \<Rightarrow> (jsval \<Rightarrow> jsval \<Rightarrow> bool) \<Rightarrow>
   jsval \<Rightarrow> jsval \<Rightarrow> jsval \<Rightarrow> mergeClosure \<Rightarrow> jsval \<times> mergeClosure" where
  "mergePropsProxy mergeProps0 pure areMergedPropsEqual sp dp ownp c =
     (let nextMergedProps = mergeProps0 sp dp ownp;
          c' = (if hasRunOnce c
                then (if \<not> pure \<or> \<not> areMergedPropsEqual nextMergedProps (cachedMergedProps c)
                      then c\<lparr> cachedMergedProps := nextMergedProps \<rparr>
                      else c)
                else c\<lparr> hasRunOnce := True, cachedMergedProps := nextMergedProps \<rparr>)
      in (cachedMergedProps c', c'))"

section \<open>selectorFactory: the pure final-props selector\<close>

text \<open>
  The arguments of \<open>pureFinalPropsSelectorFactory\<close>. \<open>mapStateToProps\<close>,
  \<open>mapDispatchToProps\<close> and \<open>mergeProps\<close> are callable objects with state of their own
  (in connect they are the proxies above), so each is a transformer of the rest of the heap
  \<open>'w\<close>, and the truthiness of the \<open>dependsOnOwnProps\<close> property of a mapper is
  read from that heap at the moment the selector tests it. The callables are taken to
  return normally. The three equality functions are pure comparisons.
\<close>

record 'w factoryArgs =
  mapStateToProps :: "jsval \<Rightarrow> jsval \<Rightarrow> 'w \<Rightarrow> jsval \<times> 'w"
  mapStateToProps_dependsOnOwnProps :: "'w \<Rightarrow> bool"
  mapDispatchToProps :: "jsval \<Rightarrow> jsval \<Rightarrow> 'w \<Rightarrow> jsval \<times> 'w"
  mapDispatchToProps_dependsOnOwnProps :: "'w \<Rightarrow> bool"
  mergeProps :: "jsval \<Rightarrow> jsval \<Rightarrow> jsval \<Rightarrow> 'w \<Rightarrow> jsval \<times> 'w"
  dispatch :: jsval
  areStatesEqual :: "jsval \<Rightarrow> jsval \<Rightarrow> bool"
  areOwnPropsEqual :: "jsval \<Rightarrow> jsval \<Rightarrow> bool"
  areStatePropsEqual :: "jsval \<Rightarrow> jsval \<Rightarrow> bool"

datatype invocation = MapStateToProps | MapDispatchToProps | MergeProps

text \<open>
  The six closure variables of the factory, the rest of the heap, and the log of the
  invocations of the three callables made so far.
\<close>

record 'w selectorState =
  hasRunAtLeastOnce :: bool
  state :: jsval
  ownProps :: jsval
  stateProps :: jsval
  dispatchProps :: jsval
  mergedProps :: jsval
  world :: 'w
  invoked :: "invocation list"

definition pureFinalPropsSelectorFactory :: "'w \<Rightarrow> 'w selectorState" where
  "pureFinalPropsSelectorFactory w =
     \<lparr> hasRunAtLeastOnce = False, state = JUndefined, ownProps = JUndefined,
       stateProps = JUndefined, dispatchProps = JUndefined, mergedProps = JUndefined,
       world = w, invoked = [] \<rparr>"

text \<open>The three call expressions of the closure, on its current variables.\<close>

definition callMapStateToProps ::
  "'w factoryArgs \<Rightarrow> 'w selectorState \<Rightarrow> jsval \<times> 'w selectorState" where
  "callMapStateToProps cfg st =
     (let (r, w) = mapStateToProps cfg (state st) (ownProps st) (world st)
      in (r, st\<lparr> world := w, invoked := invoked st @ [MapStateToProps] \<rparr>))"

definition callMapDispatchToProps ::
  "'w factoryArgs \<Rightarrow> 'w selectorState \<Rightarrow> jsval \<times> 'w selectorState" where
  "callMapDispatchToProps cfg st =
     (let (r, w) = mapDispatchToProps cfg (dispatch cfg) (ownProps st) (world st)
      in (r, st\<lparr> world := w, invoked := invoked st @ [MapDispatchToProps] \<rparr>))"

definition callMergeProps ::
  "'w factoryArgs \<Rightarrow> 'w selectorState \<Rightarrow> jsval \<times> 'w selectorState" where
  "callMergeProps cfg st =
     (let (r, w) = mergeProps cfg (stateProps st) (dispatchProps st) (ownProps st) (world st)
      in (r, st\<lparr> world := w, invoked := invoked st @ [MergeProps] \<rparr>))"

definition handleFirstCall ::
  "'w factoryArgs \<Rightarrow> jsval \<Rightarrow> jsval \<Rightarrow> 'w selectorState \<Rightarrow> jsval \<times> 'w selectorState" where
  "handleFirstCall cfg firstState firstOwnProps st =
     (let st1 = st\<lparr> state := firstState, ownProps := firstOwnProps \<rparr>;
          (sp, st2) = callMapStateToProps cfg st1;
          st3 = st2\<lparr> stateProps := sp \<rparr>;
          (dp, st4) = callMapDispatchToProps cfg st3;
          st5 = st4\<lparr> dispatchProps := dp \<rparr>;
          (mp, st6) = callMergeProps cfg st5;
          st7 = st6\<lparr> mergedProps := mp, hasRunAtLeastOnce := True \<rparr>
      in (mergedProps st7, st7))"

definition handleNewPropsAndNewState ::
  "'w factoryArgs \<Rightarrow> 'w selectorState \<Rightarrow> jsval \<times> 'w selectorState" where
  "handleNewPropsAndNewState cfg st =
     (let (sp, st1) = callMapStateToProps cfg st;
          st2 = st1\<lparr> stateProps := sp \<rparr>;
          st3 = (if mapDispatchToProps_dependsOnOwnProps cfg (world st2)
                 then (let (dp, s) = callMapDispatchToProps cfg st2
                       in s\<lparr> dispatchProps := dp \<rparr>)
                 else st2);
          (mp, st4) = callMergeProps cfg st3;
          st5 = st4\<lparr> mergedProps := mp \<rparr>
      in (mergedProps st5, st5))"

definition handleNewProps ::
  "'w factoryArgs \<Rightarrow> 'w selectorState \<Rightarrow> jsval \<times> 'w selectorState" where
  "handleNewProps cfg st =
     (let st1 = (if mapStateToProps_dependsOnOwnProps cfg (world st)
                 then (let (sp, s) = callMapStateToProps cfg st
                       in s\<lparr> stateProps := sp \<rparr>)
                 else st);
          st2 = (if mapDispatchToProps_dependsOnOwnProps cfg (world st1)
                 then (let (dp, s) = callMapDispatchToProps cfg st1
                       in s\<lparr> dispatchProps := dp \<rparr>)
                 else st1);
          (mp, st3) = callMergeProps cfg st2;
          st4 = st3\<lparr> mergedProps := mp \<rparr>
      in (mergedProps st4, st4))"

definition handleNewState ::
  "'w factoryArgs \<Rightarrow> 'w selectorState \<Rightarrow> jsval \<times> 'w selectorState" where
  "handleNewState cfg st =
     (let (nextStateProps, st1) = callMapStateToProps cfg st;
          statePropsChanged = \<not> areStatePropsEqual cfg nextStateProps (stateProps st1);
          st2 = st1\<lparr> stateProps := nextStateProps \<rparr>;
          st3 = (if statePropsChanged
                 then (let (mp, s) = callMergeProps cfg st2
                       in s\<lparr> mergedProps := mp \<rparr>)
                 else st2)
      in (mergedProps st3, st3))"

definition handleSubsequentCalls ::
  "'w factoryArgs \<Rightarrow> jsval \<Rightarrow> jsval \<Rightarrow> 'w selectorState \<Rightarrow> jsval \<times> 'w selectorState" where
  "handleSubsequentCalls cfg nextState nextOwnProps st =
     (let propsChanged = \<not> areOwnPropsEqual cfg nextOwnProps (ownProps st);
          stateChanged = \<not> areStatesEqual cfg nextState (state st);
          st1 = st\<lparr> state := nextState, ownProps := nextOwnProps \<rparr>
      in if propsChanged \<and> stateChanged then handleNewPropsAndNewState cfg st1
         else if propsChanged then handleNewProps cfg st1
         else if stateChanged then handleNewState cfg st1
         else (mergedProps st1, st1))"

definition pureFinalPropsSelector ::
  "'w factoryArgs \<Rightarrow> jsval \<Rightarrow> jsval \<Rightarrow> 'w selectorState \<Rightarrow> jsval \<times> 'w selectorState" where
  "pureFinalPropsSelector cfg nextState nextOwnProps st =
     (if hasRunAtLeastOnce st
      then handleSubsequentCalls cfg nextState nextOwnProps st
      else handleFirstCall cfg nextState nextOwnProps st)"

text \<open>A run of the selector on a list of \<open>(nextState, nextOwnProps)\<close> inputs.\<close>

fun selectorRun ::
  "'w factoryArgs \<Rightarrow> (jsval \<times> jsval) list \<Rightarrow> 'w selectorState \<Rightarrow> 'w selectorState" where
  "selectorRun cfg [] st = st"
| "selectorRun cfg ((s, p) # rest) st =
     selectorRun cfg rest (snd (pureFinalPropsSelector cfg s p st))"

section \<open>useSelector: the selector hook\<close>

text \<open>
  A value thrown by a selector or an equality function is an \<open>Error\<close> object, with its
  \<open>message\<close> and its \<open>stack\<close>. A selector is a function object: the address that
  \<open>!==\<close> compares, and a body that returns a value or throws.
\<close>

record js_error =
  message :: string
  stack :: string

datatype selector =
  Selector (sel_ref: nat) (sel_body: "jsval \<Rightarrow> js_error + jsval")

text \<open>
  The three refs of one mounted hook, the number of \<open>forceRender\<close> requests made so far
  and the log of selector invocations: which selector, on which store state.
\<close>

record hook =
  latestSubscriptionCallbackError :: "js_error option"
  latestSelector :: "selector option"
  latestSelectedState :: jsval
  renderRequests :: nat
  selectorCalls :: "(nat \<times> jsval) list"

definition initHook :: hook where
  "initHook = \<lparr> latestSubscriptionCallbackError = None, latestSelector = None,
                latestSelectedState = JUndefined, renderRequests = 0, selectorCalls = [] \<rparr>"

definition refEquality :: "jsval \<Rightarrow> jsval \<Rightarrow> js_error + bool" where
  "refEquality a b = Inr (strict_eq a b)"

definition callSelector :: "selector \<Rightarrow> jsval \<Rightarrow> hook \<Rightarrow> (js_error + jsval) \<times> hook" where
  "callSelector sel storeState h =
     (sel_body sel storeState,
      h\<lparr> selectorCalls := selectorCalls h @ [(sel_ref sel, storeState)] \<rparr>)"

definition forceRender :: "hook \<Rightarrow> hook" where
  "forceRender h = h\<lparr> renderRequests := Suc (renderRequests h) \<rparr>"

text \<open>\<open>selector !== latestSelector.current\<close>\<close>

definition selectorChanged :: "selector \<Rightarrow> hook \<Rightarrow> bool" where
  "selectorChanged sel h =
     (case latestSelector h of None \<Rightarrow> True | Some old \<Rightarrow> sel_ref sel \<noteq> sel_ref old)"

text \<open>The message built in the \<open>catch\<close> block of the render pass.\<close>

definition errorMessage :: "js_error \<Rightarrow> js_error option \<Rightarrow> string" where
  "errorMessage err previous =
     ''An error occured while selecting the store state: '' @ message err @ ''.'' @
     (case previous of
        None \<Rightarrow> []
      | Some prev \<Rightarrow>
          [CHR 0x0A] @ ''The error may be correlated with this previous error:'' @ [CHR 0x0A]
          @ stack prev @ [CHR 0x0A, CHR 0x0A] @ ''Original stack trace:'')"

text \<open>
  The render pass of \<open>useSelector(selector, equalityFn)\<close> on the store state
  \<open>store.getState()\<close> would return: the \<open>invariant\<close> on the selector, then the
  \<open>try\<close>/\<open>catch\<close>. \<open>Inl m\<close> is \<open>throw new Error(m)\<close>; \<open>Inr v\<close> is the
  \<open>selectedState\<close> that the hook returns once its effects are scheduled.
\<close>

definition useSelector :: "selector option \<Rightarrow> jsval \<Rightarrow> hook \<Rightarrow> (string + jsval) \<times> hook" where
  "useSelector selector storeState h =
     (case selector of
        None \<Rightarrow> (Inl ''You must pass a selector to useSelectors'', h)
      | Some sel \<Rightarrow>
          (if selectorChanged sel h \<or> latestSubscriptionCallbackError h \<noteq> None
           then (case callSelector sel storeState h of
                   (Inl err, h') \<Rightarrow>
                     (Inl (errorMessage err (latestSubscriptionCallbackError h')), h')
                 | (Inr selectedState, h') \<Rightarrow> (Inr selectedState, h'))
           else (Inr (latestSelectedState h), h)))"

text \<open>The first layout effect, run at every commit of a render that returned.\<close>

definition commitEffect :: "selector \<Rightarrow> jsval \<Rightarrow> hook \<Rightarrow> hook" where
  "commitEffect sel selectedState h =
     h\<lparr> latestSelector := Some sel, latestSelectedState := selectedState,
        latestSubscriptionCallbackError := None \<rparr>"

text \<open>
  \<open>checkForUpdates\<close>, closed over \<open>equalityFn\<close>, on the store state that
  \<open>store.getState()\<close> returns. Calling an undefined \<open>latestSelector.current\<close> is a
  TypeError, caught like any other throw of the \<open>try\<close> block.
\<close>

definition notAFunction :: js_error where
  "notAFunction = \<lparr> message = ''latestSelector.current is not a function'',
                     stack = ''TypeError: latestSelector.current is not a function'' \<rparr>"

definition checkForUpdates ::
  "(jsval \<Rightarrow> jsval \<Rightarrow> js_error + bool) \<Rightarrow> jsval \<Rightarrow> hook \<Rightarrow> hook" where
  "checkForUpdates equalityFn storeState h =
     (let (r, h1) = (case latestSelector h of
                       None \<Rightarrow> (Inl notAFunction, h)
                     | Some sel \<Rightarrow> callSelector sel storeState h)
      in case r of
           Inl err \<Rightarrow> forceRender (h1\<lparr> latestSubscriptionCallbackError := Some err \<rparr>)
         | Inr newSelectedState \<Rightarrow>
             (case equalityFn newSelectedState (latestSelectedState h1) of
                Inl err \<Rightarrow> forceRender (h1\<lparr> latestSubscriptionCallbackError := Some err \<rparr>)
              | Inr True \<Rightarrow> h1
              | Inr False \<Rightarrow> forceRender (h1\<lparr> latestSelectedState := newSelectedState \<rparr>)))"

text \<open>
  Mounting: the first render, its commit, and the subscription effect, which installs
  \<open>checkForUpdates\<close> as the listener and runs it once. A render that throws commits
  nothing.
\<close>

definition mount ::
  "selector \<Rightarrow> (jsval \<Rightarrow> jsval \<Rightarrow> js_error + bool) \<Rightarrow> jsval \<Rightarrow> hook option" where
  "mount sel equalityFn storeState =
     (case useSelector (Some sel) storeState initHook of
        (Inl m, h) \<Rightarrow> None
      | (Inr selectedState, h) \<Rightarrow>
          Some (checkForUpdates equalityFn storeState (commitEffect sel selectedState h)))"

section \<open>Example inputs\<close>

text \<open>
  Concrete functions, stores and states on which the theorems below are evaluated. Two
  mapping functions: one of arity 1 that reports how many arguments it received, and a
  factory of arity 0 that returns it; one with an explicit truthy \<open>dependsOnOwnProps\<close>
  and one of arity 2 whose property is null.
\<close>

definition stateOnly :: jsfun where
  "stateOnly = JsFun 1 JUndefined (\<lambda>args. Props (JNum (int (length args))))"

definition makeMapState :: jsfun where
  "makeMapState = JsFun 0 JUndefined (\<lambda>args. Function stateOnly)"

definition flagged :: jsfun where
  "flagged = JsFun 1 (JStr ''yes'') (\<lambda>args. Props JNull)"

definition twoArgs :: jsfun where
  "twoArgs = JsFun 2 JNull (\<lambda>args. Props JNull)"

text \<open>
  A simplified shallow comparison (same properties in the same order), and a selector
  pipeline whose callables allocate a fresh object at the next free address \<open>w\<close> on
  every call.
\<close>

fun sameFields :: "jsval \<Rightarrow> jsval \<Rightarrow> bool" where
  "sameFields (JObj a ps) (JObj b qs) = (ps = qs)"
| "sameFields x y = (x = y)"

fun parity :: "jsval \<Rightarrow> jsval" where
  "parity (JNum n) = JBool (even n)"
| "parity v = JUndefined"

definition exampleArgs :: "nat factoryArgs" where
  "exampleArgs =
     \<lparr> mapStateToProps = (\<lambda>s p w. (JObj w [(''even'', parity s)], Suc w)),
       mapStateToProps_dependsOnOwnProps = (\<lambda>w. False),
       mapDispatchToProps = (\<lambda>d p w. (JObj w [(''send'', d), (''to'', p)], Suc w)),
       mapDispatchToProps_dependsOnOwnProps = (\<lambda>w. True),
       mergeProps = (\<lambda>sp dp p w. (JObj w [(''s'', sp), (''d'', dp), (''o'', p)], Suc w)),
       dispatch = JFunc 0,
       areStatesEqual = strict_eq,
       areOwnPropsEqual = strict_eq,
       areStatePropsEqual = sameFields \<rparr>"

definition exampleState :: "nat selectorState" where
  "exampleState =
     snd (pureFinalPropsSelector exampleArgs (JNum 0) (JObj 1 [])
            (pureFinalPropsSelectorFactory 2))"

definition exampleMerge :: "jsval \<Rightarrow> jsval \<Rightarrow> jsval \<Rightarrow> jsval" where
  "exampleMerge sp dp ownp =
     (case ownp of JObj a ps \<Rightarrow> JObj (a + 100) ps | _ \<Rightarrow> JUndefined)"

definition exampleClosure :: mergeClosure where
  "exampleClosure =
     snd (mergePropsProxy exampleMerge True sameFields JNull JNull (JObj 1 [(''x'', JNum 1)])
            initMergePropsProxy)"

text \<open>
  The selector \<open>s => s.count\<close>, which throws on a null or undefined store state, a
  second function object with the same body, a hook mounted on the store state
  \<open>{count: 0}\<close>, and that hook after a store notification on which the selector threw.
\<close>

definition nullError :: js_error where
  "nullError = \<lparr> message = ''Cannot read properties of null'',
                  stack = ''TypeError: Cannot read properties of null at getCount'' \<rparr>"

fun getCount :: "jsval \<Rightarrow> js_error + jsval" where
  "getCount (JObj a ps) = Inr (case map_of ps ''count'' of Some v \<Rightarrow> v | None \<Rightarrow> JUndefined)"
| "getCount JNull = Inl nullError"
| "getCount JUndefined = Inl nullError"
| "getCount v = Inr JUndefined"

definition countSelector :: selector where
  "countSelector = Selector 1 getCount"

definition otherSelector :: selector where
  "otherSelector = Selector 2 getCount"

definition exampleHook :: hook where
  "exampleHook =
     (case mount countSelector refEquality (JObj 10 [(''count'', JNum 0)]) of
        Some h \<Rightarrow> h | None \<Rightarrow> initHook)"

definition failedHook :: hook where
  "failedHook = checkForUpdates refEquality JNull exampleHook"

section \<open>Properties of the adapter\<close>

lemma callMapper_passedArgs:
  "callMapper p f s ownp tr =
     (fn_body f (passedArgs (dependsOnOwnProps p) s ownp),
      tr @ [Call f (passedArgs (dependsOnOwnProps p) s ownp)])"
  by (simp add: callMapper_def invoke_def)

text \<open>
  C6. \<open>getDependsOnOwnProps f\<close> is \<open>Boolean (f.dependsOnOwnProps)\<close> whenever that
  property is neither null nor undefined; otherwise it is true exactly when the declared
  arity of \<open>f\<close> is not 1: arity 1 gives false, arity 0 and arity 2 or more give true.
\<close>

theorem getDependsOnOwnProps_spec:
  "(fn_dependsOnOwnProps f \<noteq> JNull \<and> fn_dependsOnOwnProps f \<noteq> JUndefined \<longrightarrow>
      getDependsOnOwnProps f = Boolean (fn_dependsOnOwnProps f))
   \<and> (fn_dependsOnOwnProps f = JNull \<or> fn_dependsOnOwnProps f = JUndefined \<longrightarrow>
      getDependsOnOwnProps f = (fn_length f \<noteq> 1)
      \<and> (fn_length f = 1 \<longrightarrow> \<not> getDependsOnOwnProps f)
      \<and> (fn_length f = 0 \<longrightarrow> getDependsOnOwnProps f)
      \<and> (2 \<le> fn_length f \<longrightarrow> getDependsOnOwnProps f))"
  by (cases "fn_dependsOnOwnProps f") (auto simp: getDependsOnOwnProps_def)

lemma mapToPropsProxy_Mapper:
  "mapToProps p = Mapper g \<Longrightarrow>
   mapToPropsProxy f p s ownp tr =
     (fn_body g (passedArgs (dependsOnOwnProps p) s ownp), p,
      tr @ [Call g (passedArgs (dependsOnOwnProps p) s ownp)])"
  by (simp add: mapToPropsProxy_def callMapper_passedArgs)

lemma proxyRun_Mapper:
  "mapToProps p = Mapper g \<Longrightarrow>
   proxyRun f ins p tr =
     (p, tr @ map (\<lambda>(s, ownp). Call g (passedArgs (dependsOnOwnProps p) s ownp)) ins)"
  by (induction ins arbitrary: tr) (auto simp: mapToPropsProxy_Mapper)

lemma mapToPropsProxy_first:
  "mapToPropsProxy f initProxySelector s ownp tr =
     detectFactoryAndVerify f initProxySelector s ownp tr"
  by (simp add: mapToPropsProxy_def initProxySelector_def)

lemma detectFactoryAndVerify_init:
  "detectFactoryAndVerify f initProxySelector s ownp tr =
     (case fn_body f (passedArgs (getDependsOnOwnProps f) s ownp) of
        Props v \<Rightarrow>
          (Props v,
           \<lparr> dependsOnOwnProps = getDependsOnOwnProps f, mapToProps = Mapper f \<rparr>,
           tr @ [Call f (passedArgs (getDependsOnOwnProps f) s ownp)])
      | Function g \<Rightarrow>
          (fn_body g (passedArgs (getDependsOnOwnProps g) s ownp),
           \<lparr> dependsOnOwnProps = getDependsOnOwnProps g, mapToProps = Mapper g \<rparr>,
           tr @ [Call f (passedArgs (getDependsOnOwnProps f) s ownp),
                 Call g (passedArgs (getDependsOnOwnProps g) s ownp)]))"
  by (simp add: detectFactoryAndVerify_def callMapper_passedArgs initProxySelector_def
      split: ret.splits)

lemma stateOnly_flag: "getDependsOnOwnProps stateOnly = False"
  by (simp add: getDependsOnOwnProps_def stateOnly_def)

lemma makeMapState_flag: "getDependsOnOwnProps makeMapState = True"
  by (simp add: getDependsOnOwnProps_def makeMapState_def)

lemma makeMapState_body: "fn_body makeMapState args = Function stateOnly"
  by (simp add: makeMapState_def)

lemma stateOnly_body: "fn_body stateOnly args = Props (JNum (int (length args)))"
  by (simp add: stateOnly_def)

theorem getDependsOnOwnProps_spec_witness:
  "\<not> getDependsOnOwnProps stateOnly \<and> getDependsOnOwnProps makeMapState
   \<and> getDependsOnOwnProps twoArgs \<and> getDependsOnOwnProps flagged
   \<and> \<not> getDependsOnOwnProps (constantSelector JNull)"
proof -
  have e: "fn_dependsOnOwnProps (constantSelector JNull) = JBool False"
    by (simp add: constantSelector_def)
  have a: "fn_dependsOnOwnProps stateOnly = JUndefined \<and> fn_length stateOnly = 1"
    by (simp add: stateOnly_def)
  have b: "fn_dependsOnOwnProps makeMapState = JUndefined \<and> fn_length makeMapState = 0"
    by (simp add: makeMapState_def)
  have c: "fn_dependsOnOwnProps twoArgs = JNull \<and> 2 \<le> fn_length twoArgs"
    by (simp add: twoArgs_def)
  have d: "fn_dependsOnOwnProps flagged = JStr ''yes'' \<and> fn_length flagged = 1"
    by (simp add: flagged_def)
  show ?thesis
    using a b c d e getDependsOnOwnProps_spec [of stateOnly]
      getDependsOnOwnProps_spec [of makeMapState] getDependsOnOwnProps_spec [of twoArgs]
      getDependsOnOwnProps_spec [of flagged]
      getDependsOnOwnProps_spec [of "constantSelector JNull"]
    by simp
qed

text \<open>
  C5. If the wrapped function \<open>f\<close> returns a function \<open>g\<close> on the first invocation
  of a fresh proxy, that invocation calls \<open>f\<close> once and then \<open>g\<close> once, leaves
  \<open>g\<close> as the proxy's active function with \<open>dependsOnOwnProps\<close> recomputed from
  \<open>g\<close>, and returns what \<open>g\<close> returned. Every run of later invocations calls \<open>g\<close>
  once per invocation and nothing else, and leaves the proxy as it is: whatever \<open>g\<close>
  returns, no second resolution takes place.
\<close>

theorem mapToPropsProxy_factory_resolution:
  assumes "fn_body f (passedArgs (getDependsOnOwnProps f) s ownp) = Function g"
  shows "mapToPropsProxy f initProxySelector s ownp tr =
           (fn_body g (passedArgs (getDependsOnOwnProps g) s ownp),
            \<lparr> dependsOnOwnProps = getDependsOnOwnProps g, mapToProps = Mapper g \<rparr>,
            tr @ [Call f (passedArgs (getDependsOnOwnProps f) s ownp),
                  Call g (passedArgs (getDependsOnOwnProps g) s ownp)])
         \<and> (\<forall>ins tr'.
              proxyRun f ins
                \<lparr> dependsOnOwnProps = getDependsOnOwnProps g, mapToProps = Mapper g \<rparr> tr' =
                (\<lparr> dependsOnOwnProps = getDependsOnOwnProps g, mapToProps = Mapper g \<rparr>,
                 tr' @ map (\<lambda>(s', ownp').
                              Call g (passedArgs (getDependsOnOwnProps g) s' ownp')) ins))"
proof -
  let ?p = "\<lparr> dependsOnOwnProps = getDependsOnOwnProps g, mapToProps = Mapper g \<rparr>"
  have first: "mapToPropsProxy f initProxySelector s ownp tr =
           (fn_body g (passedArgs (getDependsOnOwnProps g) s ownp), ?p,
            tr @ [Call f (passedArgs (getDependsOnOwnProps f) s ownp),
                  Call g (passedArgs (getDependsOnOwnProps g) s ownp)])"
    using assms by (simp add: mapToPropsProxy_first detectFactoryAndVerify_init)
  have later: "proxyRun f ins ?p tr' =
      (?p, tr' @ map (\<lambda>(s', ownp'). Call g (passedArgs (getDependsOnOwnProps g) s' ownp')) ins)"
    for ins tr'
    using proxyRun_Mapper [of ?p g f ins tr'] by simp
  from first later show ?thesis by blast
qed

theorem mapToPropsProxy_factory_resolution_witness:
  "fn_body makeMapState (passedArgs (getDependsOnOwnProps makeMapState) (JNum 5) (JObj 1 []))
     = Function stateOnly
   \<and> mapToPropsProxy makeMapState initProxySelector (JNum 5) (JObj 1 []) [] =
       (Props (JNum 1), \<lparr> dependsOnOwnProps = False, mapToProps = Mapper stateOnly \<rparr>,
        [Call makeMapState [JNum 5, JObj 1 []], Call stateOnly [JNum 5]])
   \<and> proxyRun makeMapState [(JNum 6, JObj 2 []), (JNum 7, JObj 3 [])]
        \<lparr> dependsOnOwnProps = False, mapToProps = Mapper stateOnly \<rparr> [] =
       (\<lparr> dependsOnOwnProps = False, mapToProps = Mapper stateOnly \<rparr>,
        [Call stateOnly [JNum 6], Call stateOnly [JNum 7]])"
proof -
  have h: "fn_body makeMapState
             (passedArgs (getDependsOnOwnProps makeMapState) (JNum 5) (JObj 1 []))
           = Function stateOnly"
    by (simp add: makeMapState_body)
  note t = mapToPropsProxy_factory_resolution [OF h, of "[]"]
  have first: "mapToPropsProxy makeMapState initProxySelector (JNum 5) (JObj 1 []) [] =
       (Props (JNum 1), \<lparr> dependsOnOwnProps = False, mapToProps = Mapper stateOnly \<rparr>,
        [Call makeMapState [JNum 5, JObj 1 []], Call stateOnly [JNum 5]])"
    using t [THEN conjunct1]
    by (simp add: stateOnly_flag makeMapState_flag stateOnly_body passedArgs_def)
  have later: "proxyRun makeMapState [(JNum 6, JObj 2 []), (JNum 7, JObj 3 [])]
        \<lparr> dependsOnOwnProps = False, mapToProps = Mapper stateOnly \<rparr> [] =
       (\<lparr> dependsOnOwnProps = False, mapToProps = Mapper stateOnly \<rparr>,
        [Call stateOnly [JNum 6], Call stateOnly [JNum 7]])"
    using t [THEN conjunct2, rule_format, of "[(JNum 6, JObj 2 []), (JNum 7, JObj 3 [])]" "[]"]
    by (simp add: stateOnly_flag passedArgs_def del: proxyRun.simps)
  from h first later show ?thesis by blast
qed

text \<open>
  C10, as stated, fails: on the first invocation of a fresh proxy around a function of
  arity 1 without a \<open>dependsOnOwnProps\<close> property, the wrapped function is called with
  the state alone, although the fresh proxy's flag is true.
\<close>

theorem mapToPropsProxy_first_call_counterexample:
  "dependsOnOwnProps initProxySelector
   \<and> mapToPropsProxy stateOnly initProxySelector (JNum 5) (JObj 1 []) [] =
       (Props (JNum 1), \<lparr> dependsOnOwnProps = False, mapToProps = Mapper stateOnly \<rparr>,
        [Call stateOnly [JNum 5]])
   \<and> [Call stateOnly [JNum 5]] \<noteq> [Call stateOnly [JNum 5, JObj 1 []]]"
proof -
  have "dependsOnOwnProps initProxySelector"
    by (simp add: initProxySelector_def)
  moreover have "mapToPropsProxy stateOnly initProxySelector (JNum 5) (JObj 1 []) [] =
       (Props (JNum 1), \<lparr> dependsOnOwnProps = False, mapToProps = Mapper stateOnly \<rparr>,
        [Call stateOnly [JNum 5]])"
    by (simp add: mapToPropsProxy_first detectFactoryAndVerify_init stateOnly_flag
        stateOnly_body passedArgs_def)
  moreover have "[Call stateOnly [JNum 5]] \<noteq> [Call stateOnly [JNum 5, JObj 1 []]]"
    by simp
  ultimately show ?thesis by blast
qed

text \<open>
  C10, amended. A fresh proxy has \<open>dependsOnOwnProps = true\<close>, so its first invocation
  hands \<open>ownProps\<close> to \<open>detectFactoryAndVerify\<close>. The wrapped function \<open>f\<close> is then
  passed \<open>ownProps\<close> if and only if \<open>getDependsOnOwnProps f\<close>, and so is the function
  it may return, under its own flag. When the first invocation completes, the proxy's
  \<open>dependsOnOwnProps\<close> is \<open>getDependsOnOwnProps\<close> of the resolved function; every call
  of a proxy whose active function is a user function passes \<open>ownProps\<close> if and only if
  the proxy's flag is true, and leaves the proxy unchanged.
\<close>

theorem mapToPropsProxy_ownProps_passing:
  "dependsOnOwnProps initProxySelector
   \<and> mapToPropsProxy f initProxySelector s ownp tr =
       detectFactoryAndVerify f initProxySelector s ownp tr
   \<and> mapToPropsProxy f initProxySelector s ownp tr =
       (case fn_body f (passedArgs (getDependsOnOwnProps f) s ownp) of
          Props v \<Rightarrow>
            (Props v,
             \<lparr> dependsOnOwnProps = getDependsOnOwnProps f, mapToProps = Mapper f \<rparr>,
             tr @ [Call f (passedArgs (getDependsOnOwnProps f) s ownp)])
        | Function g \<Rightarrow>
            (fn_body g (passedArgs (getDependsOnOwnProps g) s ownp),
             \<lparr> dependsOnOwnProps = getDependsOnOwnProps g, mapToProps = Mapper g \<rparr>,
             tr @ [Call f (passedArgs (getDependsOnOwnProps f) s ownp),
                   Call g (passedArgs (getDependsOnOwnProps g) s ownp)]))
   \<and> (\<forall>p g s' ownp' tr'. mapToProps p = Mapper g \<longrightarrow>
         mapToPropsProxy f p s' ownp' tr' =
           (fn_body g (passedArgs (dependsOnOwnProps p) s' ownp'), p,
            tr' @ [Call g (passedArgs (dependsOnOwnProps p) s' ownp')]))"
  by (simp add: mapToPropsProxy_first detectFactoryAndVerify_init mapToPropsProxy_Mapper)
     (simp add: initProxySelector_def)

theorem mapToPropsProxy_ownProps_passing_witness:
  "mapToPropsProxy stateOnly initProxySelector (JNum 5) (JObj 1 []) [] =
       (Props (JNum 1), \<lparr> dependsOnOwnProps = False, mapToProps = Mapper stateOnly \<rparr>,
        [Call stateOnly [JNum 5]])
   \<and> mapToProps \<lparr> dependsOnOwnProps = True, mapToProps = Mapper stateOnly \<rparr> = Mapper stateOnly
   \<and> mapToPropsProxy stateOnly \<lparr> dependsOnOwnProps = True, mapToProps = Mapper stateOnly \<rparr>
        (JNum 6) (JObj 2 []) [] =
       (Props (JNum 2), \<lparr> dependsOnOwnProps = True, mapToProps = Mapper stateOnly \<rparr>,
        [Call stateOnly [JNum 6, JObj 2 []]])"
proof -
  let ?p = "\<lparr> dependsOnOwnProps = True, mapToProps = Mapper stateOnly \<rparr>"
  have h: "mapToProps ?p = Mapper stateOnly" by simp
  note t = mapToPropsProxy_ownProps_passing [of stateOnly "JNum 5" "JObj 1 []" "[]"]
  have first: "mapToPropsProxy stateOnly initProxySelector (JNum 5) (JObj 1 []) [] =
       (Props (JNum 1), \<lparr> dependsOnOwnProps = False, mapToProps = Mapper stateOnly \<rparr>,
        [Call stateOnly [JNum 5]])"
    using t [THEN conjunct2, THEN conjunct2, THEN conjunct1]
    by (simp add: stateOnly_flag stateOnly_body passedArgs_def)
  from t h have "mapToPropsProxy stateOnly ?p (JNum 6) (JObj 2 []) [] =
           (fn_body stateOnly (passedArgs (dependsOnOwnProps ?p) (JNum 6) (JObj 2 [])), ?p,
            [] @ [Call stateOnly (passedArgs (dependsOnOwnProps ?p) (JNum 6) (JObj 2 []))])"
    by blast
  then have later: "mapToPropsProxy stateOnly ?p (JNum 6) (JObj 2 []) [] =
       (Props (JNum 2), ?p, [Call stateOnly [JNum 6, JObj 2 []]])"
    by (simp add: stateOnly_body passedArgs_def)
  from first h later show ?thesis by blast
qed

section \<open>Properties of the merge wrapper\<close>

text \<open>
  C4. Once the wrapper has run: in pure mode, if the fresh merge result is
  \<open>areMergedPropsEqual\<close> to the cached one, the wrapper returns the cached value itself
  (the same object, not the fresh one) and keeps its closure; if they are not equal, or
  if \<open>pure\<close> is false, the fresh result replaces the cache and is returned. What is
  returned is always the cache afterwards, and \<open>hasRunOnce\<close> stays true.
\<close>

theorem mergePropsProxy_memoization:
  assumes "hasRunOnce c"
  shows
  "(pure \<and> areMergedPropsEqual (mergeProps0 sp dp ownp) (cachedMergedProps c) \<longrightarrow>
      mergePropsProxy mergeProps0 pure areMergedPropsEqual sp dp ownp c =
        (cachedMergedProps c, c))
   \<and> (\<not> pure \<or> \<not> areMergedPropsEqual (mergeProps0 sp dp ownp) (cachedMergedProps c) \<longrightarrow>
      mergePropsProxy mergeProps0 pure areMergedPropsEqual sp dp ownp c =
        (mergeProps0 sp dp ownp, c\<lparr> cachedMergedProps := mergeProps0 sp dp ownp \<rparr>))
   \<and> hasRunOnce (snd (mergePropsProxy mergeProps0 pure areMergedPropsEqual sp dp ownp c))
   \<and> fst (mergePropsProxy mergeProps0 pure areMergedPropsEqual sp dp ownp c) =
       cachedMergedProps (snd (mergePropsProxy mergeProps0 pure areMergedPropsEqual sp dp ownp c))"
  using assms by (simp add: mergePropsProxy_def Let_def)

lemma exampleMerge_simps:
  "exampleMerge sp dp (JObj a ps) = JObj (a + 100) ps"
  by (simp add: exampleMerge_def)

theorem mergePropsProxy_memoization_witness:
  "hasRunOnce exampleClosure
   \<and> mergePropsProxy exampleMerge True sameFields JNull JNull (JObj 2 [(''x'', JNum 1)])
       exampleClosure = (JObj 101 [(''x'', JNum 1)], exampleClosure)
   \<and> exampleMerge JNull JNull (JObj 2 [(''x'', JNum 1)]) = JObj 102 [(''x'', JNum 1)]
   \<and> fst (mergePropsProxy exampleMerge True sameFields JNull JNull (JObj 3 [(''x'', JNum 2)])
            exampleClosure) = JObj 103 [(''x'', JNum 2)]
   \<and> fst (mergePropsProxy exampleMerge False sameFields JNull JNull (JObj 2 [(''x'', JNum 1)])
            exampleClosure) = JObj 102 [(''x'', JNum 1)]"
proof -
  have h: "hasRunOnce exampleClosure"
    by (simp add: exampleClosure_def mergePropsProxy_def initMergePropsProxy_def Let_def)
  have c: "cachedMergedProps exampleClosure = JObj 101 [(''x'', JNum 1)]"
    by (simp add: exampleClosure_def mergePropsProxy_def initMergePropsProxy_def Let_def
        exampleMerge_simps)
  have same: "True \<and> sameFields (exampleMerge JNull JNull (JObj 2 [(''x'', JNum 1)]))
                        (cachedMergedProps exampleClosure)"
    by (simp add: c exampleMerge_simps)
  have differ: "\<not> True \<or> \<not> sameFields (exampleMerge JNull JNull (JObj 3 [(''x'', JNum 2)]))
                        (cachedMergedProps exampleClosure)"
    by (simp add: c exampleMerge_simps)
  have impure: "\<not> False \<or> \<not> sameFields (exampleMerge JNull JNull (JObj 2 [(''x'', JNum 1)]))
                        (cachedMergedProps exampleClosure)"
    by simp
  have c1: "mergePropsProxy exampleMerge True sameFields JNull JNull (JObj 2 [(''x'', JNum 1)])
       exampleClosure = (JObj 101 [(''x'', JNum 1)], exampleClosure)"
    using mergePropsProxy_memoization [OF h, of True sameFields exampleMerge JNull JNull
        "JObj 2 [(''x'', JNum 1)]"] same
    by (simp add: c)
  have c2: "exampleMerge JNull JNull (JObj 2 [(''x'', JNum 1)]) = JObj 102 [(''x'', JNum 1)]"
    by (simp add: exampleMerge_simps)
  have c3: "fst (mergePropsProxy exampleMerge True sameFields JNull JNull
                   (JObj 3 [(''x'', JNum 2)]) exampleClosure) = JObj 103 [(''x'', JNum 2)]"
    using mergePropsProxy_memoization [OF h, of True sameFields exampleMerge JNull JNull
        "JObj 3 [(''x'', JNum 2)]"] differ
    by (simp add: exampleMerge_simps)
  have c4: "fst (mergePropsProxy exampleMerge False sameFields JNull JNull
                   (JObj 2 [(''x'', JNum 1)]) exampleClosure) = JObj 102 [(''x'', JNum 1)]"
    using mergePropsProxy_memoization [OF h, of False sameFields exampleMerge JNull JNull
        "JObj 2 [(''x'', JNum 1)]"] impure
    by (simp add: exampleMerge_simps)
  from h c1 c2 c3 c4 show ?thesis by blast
qed

section \<open>Properties of the pure final-props selector\<close>

lemmas selector_defs =
  pureFinalPropsSelector_def handleSubsequentCalls_def handleFirstCall_def
  handleNewPropsAndNewState_def handleNewProps_def handleNewState_def
  callMapStateToProps_def callMapDispatchToProps_def callMergeProps_def

text \<open>
  C1. After the first invocation, a call with \<open>(nextState, nextOwnProps)\<close>:
  when neither equality function reports a change, returns the cached \<open>mergedProps\<close>,
  invokes none of the three callables and leaves the rest of the heap alone; when only the
  state changed, invokes \<open>mapStateToProps\<close>, and \<open>mergeProps\<close> if and only if
  \<open>areStatePropsEqual\<close> of the new and the old state props is false (returning the
  cached \<open>mergedProps\<close> otherwise); when only the own props changed, invokes
  \<open>mapStateToProps\<close> and \<open>mapDispatchToProps\<close> each if and only if its
  \<open>dependsOnOwnProps\<close> is true, and then \<open>mergeProps\<close>; when both changed, invokes
  \<open>mapStateToProps\<close>, \<open>mapDispatchToProps\<close> if and only if its
  \<open>dependsOnOwnProps\<close> is true, and \<open>mergeProps\<close>. In each case the theorem gives,
  besides the log of invocations, the whole outcome: the callables are applied to the new
  state and own props and to the heap as the previous callable left it, a props value that
  is not recomputed is the cached one, \<open>mergeProps\<close> receives the state props and
  dispatch props so obtained, and the value returned is what \<open>mergeProps\<close> returned
  (or the cached \<open>mergedProps\<close> where it is not invoked), stored in the closure.
\<close>

theorem pureFinalPropsSelector_invalidation_matrix:
  assumes "hasRunAtLeastOnce st"
  shows
  "(areOwnPropsEqual cfg nextOwnProps (ownProps st) \<and> areStatesEqual cfg nextState (state st) \<longrightarrow>
      pureFinalPropsSelector cfg nextState nextOwnProps st =
        (mergedProps st, st\<lparr> state := nextState, ownProps := nextOwnProps \<rparr>))
   \<and> (areOwnPropsEqual cfg nextOwnProps (ownProps st) \<and> \<not> areStatesEqual cfg nextState (state st) \<longrightarrow>
      invoked (snd (pureFinalPropsSelector cfg nextState nextOwnProps st)) =
        invoked st @ [MapStateToProps] @
        (if areStatePropsEqual cfg
              (fst (mapStateToProps cfg nextState nextOwnProps (world st))) (stateProps st)
         then [] else [MergeProps])
      \<and> (areStatePropsEqual cfg
              (fst (mapStateToProps cfg nextState nextOwnProps (world st))) (stateProps st) \<longrightarrow>
           fst (pureFinalPropsSelector cfg nextState nextOwnProps st) = mergedProps st)
      \<and> pureFinalPropsSelector cfg nextState nextOwnProps st =
          (let (sp, w1) = mapStateToProps cfg nextState nextOwnProps (world st)
           in if areStatePropsEqual cfg sp (stateProps st)
              then (mergedProps st,
                    st\<lparr> state := nextState, ownProps := nextOwnProps, stateProps := sp,
                        world := w1, invoked := invoked st @ [MapStateToProps] \<rparr>)
              else (let (mp, w2) = mergeProps cfg sp (dispatchProps st) nextOwnProps w1
                    in (mp,
                        st\<lparr> state := nextState, ownProps := nextOwnProps, stateProps := sp,
                            mergedProps := mp, world := w2,
                            invoked := invoked st @ [MapStateToProps, MergeProps] \<rparr>))))
   \<and> (\<not> areOwnPropsEqual cfg nextOwnProps (ownProps st) \<and> areStatesEqual cfg nextState (state st) \<longrightarrow>
      invoked (snd (pureFinalPropsSelector cfg nextState nextOwnProps st)) =
        invoked st @
        (if mapStateToProps_dependsOnOwnProps cfg (world st) then [MapStateToProps] else []) @
        (if mapDispatchToProps_dependsOnOwnProps cfg
              (if mapStateToProps_dependsOnOwnProps cfg (world st)
               then snd (mapStateToProps cfg nextState nextOwnProps (world st))
               else world st)
         then [MapDispatchToProps] else []) @
        [MergeProps]
      \<and> pureFinalPropsSelector cfg nextState nextOwnProps st =
          (let (sp, w1) = (if mapStateToProps_dependsOnOwnProps cfg (world st)
                           then mapStateToProps cfg nextState nextOwnProps (world st)
                           else (stateProps st, world st));
               (dp, w2) = (if mapDispatchToProps_dependsOnOwnProps cfg w1
                           then mapDispatchToProps cfg (dispatch cfg) nextOwnProps w1
                           else (dispatchProps st, w1));
               (mp, w3) = mergeProps cfg sp dp nextOwnProps w2
           in (mp,
               st\<lparr> state := nextState, ownProps := nextOwnProps, stateProps := sp,
                   dispatchProps := dp, mergedProps := mp, world := w3,
                   invoked := invoked st @
                     (if mapStateToProps_dependsOnOwnProps cfg (world st)
                      then [MapStateToProps] else []) @
                     (if mapDispatchToProps_dependsOnOwnProps cfg w1
                      then [MapDispatchToProps] else []) @
                     [MergeProps] \<rparr>)))
   \<and> (\<not> areOwnPropsEqual cfg nextOwnProps (ownProps st) \<and> \<not> areStatesEqual cfg nextState (state st) \<longrightarrow>
      invoked (snd (pureFinalPropsSelector cfg nextState nextOwnProps st)) =
        invoked st @ [MapStateToProps] @
        (if mapDispatchToProps_dependsOnOwnProps cfg
              (snd (mapStateToProps cfg nextState nextOwnProps (world st)))
         then [MapDispatchToProps] else []) @
        [MergeProps]
      \<and> pureFinalPropsSelector cfg nextState nextOwnProps st =
          (let (sp, w1) = mapStateToProps cfg nextState nextOwnProps (world st);
               (dp, w2) = (if mapDispatchToProps_dependsOnOwnProps cfg w1
                           then mapDispatchToProps cfg (dispatch cfg) nextOwnProps w1
                           else (dispatchProps st, w1));
               (mp, w3) = mergeProps cfg sp dp nextOwnProps w2
           in (mp,
               st\<lparr> state := nextState, ownProps := nextOwnProps, stateProps := sp,
                   dispatchProps := dp, mergedProps := mp, world := w3,
                   invoked := invoked st @ [MapStateToProps] @
                     (if mapDispatchToProps_dependsOnOwnProps cfg w1
                      then [MapDispatchToProps] else []) @
                     [MergeProps] \<rparr>)))"
  using assms
  by (auto simp: selector_defs Let_def split: prod.splits)

lemma hasRunAtLeastOnce_step:
  "hasRunAtLeastOnce st \<Longrightarrow> hasRunAtLeastOnce (snd (pureFinalPropsSelector cfg s p st))"
  by (auto simp: selector_defs Let_def split: prod.splits)

lemma hasRunAtLeastOnce_run:
  "hasRunAtLeastOnce st \<Longrightarrow> hasRunAtLeastOnce (selectorRun cfg ins st)"
  by (induction ins arbitrary: st) (auto simp: hasRunAtLeastOnce_step)

lemma handleFirstCall_eq:
  "handleFirstCall cfg s p st =
     (let (sp, w1) = mapStateToProps cfg s p (world st);
          (dp, w2) = mapDispatchToProps cfg (dispatch cfg) p w1;
          (mp, w3) = mergeProps cfg sp dp p w2
      in (mp, st\<lparr> hasRunAtLeastOnce := True, state := s, ownProps := p, stateProps := sp,
                  dispatchProps := dp, mergedProps := mp, world := w3,
                  invoked := invoked st @ [MapStateToProps, MapDispatchToProps, MergeProps] \<rparr>))"
  by (simp add: selector_defs Let_def split: prod.splits)

text \<open>
  C7. The first invocation invokes \<open>mapStateToProps\<close>, \<open>mapDispatchToProps\<close> and
  \<open>mergeProps\<close>, in this order, whatever the \<open>dependsOnOwnProps\<close> flags and the
  equality functions are; it stores the two inputs and the three outputs in the closure
  and returns the merged props. After it, every invocation, however many came before,
  is \<open>handleSubsequentCalls\<close>.
\<close>

theorem pureFinalPropsSelector_first_call:
  assumes "\<not> hasRunAtLeastOnce st"
  shows "(let (sp, w1) = mapStateToProps cfg s p (world st);
              (dp, w2) = mapDispatchToProps cfg (dispatch cfg) p w1;
              (mp, w3) = mergeProps cfg sp dp p w2;
              st' = st\<lparr> hasRunAtLeastOnce := True, state := s, ownProps := p,
                        stateProps := sp, dispatchProps := dp, mergedProps := mp, world := w3,
                        invoked := invoked st @ [MapStateToProps, MapDispatchToProps, MergeProps] \<rparr>
          in pureFinalPropsSelector cfg s p st = (mp, st')
             \<and> (\<forall>ins s2 p2.
                   pureFinalPropsSelector cfg s2 p2 (selectorRun cfg ins st') =
                   handleSubsequentCalls cfg s2 p2 (selectorRun cfg ins st')))"
proof -
  have sub: "pureFinalPropsSelector cfg s2 p2 (selectorRun cfg ins st') =
             handleSubsequentCalls cfg s2 p2 (selectorRun cfg ins st')"
    if "hasRunAtLeastOnce st'" for st' :: "'a selectorState" and ins s2 p2
    using hasRunAtLeastOnce_run [OF that, of cfg ins]
    by (simp add: pureFinalPropsSelector_def)
  have "pureFinalPropsSelector cfg s p st = handleFirstCall cfg s p st"
    using assms by (simp add: pureFinalPropsSelector_def)
  then show ?thesis
    by (simp add: handleFirstCall_eq Let_def sub split: prod.splits)
qed


lemma exampleArgs_simps:
  "mapStateToProps exampleArgs s p w = (JObj w [(''even'', parity s)], Suc w)"
  "mapStateToProps_dependsOnOwnProps exampleArgs w = False"
  "mapDispatchToProps exampleArgs d p w = (JObj w [(''send'', d), (''to'', p)], Suc w)"
  "mapDispatchToProps_dependsOnOwnProps exampleArgs w = True"
  "mergeProps exampleArgs sp dp p w = (JObj w [(''s'', sp), (''d'', dp), (''o'', p)], Suc w)"
  "dispatch exampleArgs = JFunc 0"
  "areStatesEqual exampleArgs = strict_eq"
  "areOwnPropsEqual exampleArgs = strict_eq"
  "areStatePropsEqual exampleArgs = sameFields"
  by (simp_all add: exampleArgs_def)

lemma exampleState_simps:
  "hasRunAtLeastOnce exampleState"
  "state exampleState = JNum 0"
  "ownProps exampleState = JObj 1 []"
  "stateProps exampleState = JObj 2 [(''even'', JBool True)]"
  "dispatchProps exampleState = JObj 3 [(''send'', JFunc 0), (''to'', JObj 1 [])]"
  "mergedProps exampleState =
     JObj 4 [(''s'', JObj 2 [(''even'', JBool True)]),
             (''d'', JObj 3 [(''send'', JFunc 0), (''to'', JObj 1 [])]),
             (''o'', JObj 1 [])]"
  "world exampleState = 5"
  "invoked exampleState = [MapStateToProps, MapDispatchToProps, MergeProps]"
  by (simp_all add: exampleState_def pureFinalPropsSelector_def handleFirstCall_eq
      pureFinalPropsSelectorFactory_def exampleArgs_simps)

theorem pureFinalPropsSelector_first_call_witness:
  "\<not> hasRunAtLeastOnce (pureFinalPropsSelectorFactory (2::nat))
   \<and> fst (pureFinalPropsSelector exampleArgs (JNum 0) (JObj 1 [])
            (pureFinalPropsSelectorFactory 2))
       = JObj 4 [(''s'', JObj 2 [(''even'', JBool True)]),
                 (''d'', JObj 3 [(''send'', JFunc 0), (''to'', JObj 1 [])]),
                 (''o'', JObj 1 [])]
   \<and> invoked (snd (pureFinalPropsSelector exampleArgs (JNum 0) (JObj 1 [])
                     (pureFinalPropsSelectorFactory 2)))
       = [MapStateToProps, MapDispatchToProps, MergeProps]
   \<and> pureFinalPropsSelector exampleArgs (JNum 1) (JObj 1 [])
         (selectorRun exampleArgs [(JNum 1, JObj 1 [])]
            (snd (pureFinalPropsSelector exampleArgs (JNum 0) (JObj 1 [])
                    (pureFinalPropsSelectorFactory 2))))
       = handleSubsequentCalls exampleArgs (JNum 1) (JObj 1 [])
           (selectorRun exampleArgs [(JNum 1, JObj 1 [])]
              (snd (pureFinalPropsSelector exampleArgs (JNum 0) (JObj 1 [])
                      (pureFinalPropsSelectorFactory 2))))"
proof -
  have h: "\<not> hasRunAtLeastOnce (pureFinalPropsSelectorFactory (2::nat))"
    by (simp add: pureFinalPropsSelectorFactory_def)
  have w: "world (pureFinalPropsSelectorFactory x) = x"
          "invoked (pureFinalPropsSelectorFactory x) = []" for x :: nat
    by (simp_all add: pureFinalPropsSelectorFactory_def)
  show ?thesis
    using h pureFinalPropsSelector_first_call [OF h, of exampleArgs "JNum 0" "JObj 1 []"]
    by (simp add: exampleArgs_simps Let_def w del: selectorRun.simps)
qed


lemma strict_eq_simps:
  "strict_eq (JNum a) (JNum b) = (a = b)"
  "strict_eq (JObj x ps) (JObj y qs) = (x = y)"
  by simp_all

theorem pureFinalPropsSelector_invalidation_matrix_witness:
  "hasRunAtLeastOnce exampleState
   \<and> pureFinalPropsSelector exampleArgs (JNum 0) (JObj 1 []) exampleState =
       (mergedProps exampleState, exampleState\<lparr> state := JNum 0, ownProps := JObj 1 [] \<rparr>)
   \<and> invoked (snd (pureFinalPropsSelector exampleArgs (JNum 2) (JObj 1 []) exampleState)) =
       invoked exampleState @ [MapStateToProps]
   \<and> fst (pureFinalPropsSelector exampleArgs (JNum 2) (JObj 1 []) exampleState) =
       mergedProps exampleState
   \<and> invoked (snd (pureFinalPropsSelector exampleArgs (JNum 1) (JObj 1 []) exampleState)) =
       invoked exampleState @ [MapStateToProps, MergeProps]
   \<and> invoked (snd (pureFinalPropsSelector exampleArgs (JNum 0) (JObj 9 []) exampleState)) =
       invoked exampleState @ [MapDispatchToProps, MergeProps]
   \<and> invoked (snd (pureFinalPropsSelector exampleArgs (JNum 1) (JObj 9 []) exampleState)) =
       invoked exampleState @ [MapStateToProps, MapDispatchToProps, MergeProps]
   \<and> stateProps (snd (pureFinalPropsSelector exampleArgs (JNum 2) (JObj 1 []) exampleState)) =
       JObj 5 [(''even'', JBool True)]
   \<and> fst (pureFinalPropsSelector exampleArgs (JNum 1) (JObj 1 []) exampleState) =
       JObj 6 [(''s'', JObj 5 [(''even'', JBool False)]),
               (''d'', JObj 3 [(''send'', JFunc 0), (''to'', JObj 1 [])]),
               (''o'', JObj 1 [])]
   \<and> fst (pureFinalPropsSelector exampleArgs (JNum 0) (JObj 9 []) exampleState) =
       JObj 6 [(''s'', JObj 2 [(''even'', JBool True)]),
               (''d'', JObj 5 [(''send'', JFunc 0), (''to'', JObj 9 [])]),
               (''o'', JObj 9 [])]
   \<and> fst (pureFinalPropsSelector exampleArgs (JNum 1) (JObj 9 []) exampleState) =
       JObj 7 [(''s'', JObj 5 [(''even'', JBool False)]),
               (''d'', JObj 6 [(''send'', JFunc 0), (''to'', JObj 9 [])]),
               (''o'', JObj 9 [])]
   \<and> world (snd (pureFinalPropsSelector exampleArgs (JNum 1) (JObj 9 []) exampleState)) = 8"
proof -
  note h = exampleState_simps(1)
  note ex = exampleArgs_simps exampleState_simps strict_eq_simps
  have neither: "areOwnPropsEqual exampleArgs (JObj 1 []) (ownProps exampleState)
                 \<and> areStatesEqual exampleArgs (JNum 0) (state exampleState)"
    by (simp add: ex)
  have state_only: "areOwnPropsEqual exampleArgs (JObj 1 []) (ownProps exampleState)
                 \<and> \<not> areStatesEqual exampleArgs (JNum 2) (state exampleState)"
                "areOwnPropsEqual exampleArgs (JObj 1 []) (ownProps exampleState)
                 \<and> \<not> areStatesEqual exampleArgs (JNum 1) (state exampleState)"
    by (simp_all add: ex)
  have props_only: "\<not> areOwnPropsEqual exampleArgs (JObj 9 []) (ownProps exampleState)
                 \<and> areStatesEqual exampleArgs (JNum 0) (state exampleState)"
    by (simp add: ex)
  have both: "\<not> areOwnPropsEqual exampleArgs (JObj 9 []) (ownProps exampleState)
                 \<and> \<not> areStatesEqual exampleArgs (JNum 1) (state exampleState)"
    by (simp add: ex)
  have c1: "pureFinalPropsSelector exampleArgs (JNum 0) (JObj 1 []) exampleState =
       (mergedProps exampleState, exampleState\<lparr> state := JNum 0, ownProps := JObj 1 [] \<rparr>)"
    using pureFinalPropsSelector_invalidation_matrix [OF h, of exampleArgs "JObj 1 []" "JNum 0"] neither
    by blast
  have c2: "invoked (snd (pureFinalPropsSelector exampleArgs (JNum 2) (JObj 1 []) exampleState)) =
       invoked exampleState @ [MapStateToProps]
       \<and> fst (pureFinalPropsSelector exampleArgs (JNum 2) (JObj 1 []) exampleState) =
       mergedProps exampleState
       \<and> stateProps (snd (pureFinalPropsSelector exampleArgs (JNum 2) (JObj 1 [])
                             exampleState)) = JObj 5 [(''even'', JBool True)]"
    using pureFinalPropsSelector_invalidation_matrix [OF h, of exampleArgs "JObj 1 []" "JNum 2"] state_only(1)
    by (simp add: ex Let_def)
  have c3: "invoked (snd (pureFinalPropsSelector exampleArgs (JNum 1) (JObj 1 []) exampleState)) =
       invoked exampleState @ [MapStateToProps, MergeProps]
       \<and> fst (pureFinalPropsSelector exampleArgs (JNum 1) (JObj 1 []) exampleState) =
       JObj 6 [(''s'', JObj 5 [(''even'', JBool False)]),
               (''d'', JObj 3 [(''send'', JFunc 0), (''to'', JObj 1 [])]),
               (''o'', JObj 1 [])]"
    using pureFinalPropsSelector_invalidation_matrix [OF h, of exampleArgs "JObj 1 []" "JNum 1"] state_only(2)
    by (simp add: ex Let_def)
  have c4: "invoked (snd (pureFinalPropsSelector exampleArgs (JNum 0) (JObj 9 []) exampleState)) =
       invoked exampleState @ [MapDispatchToProps, MergeProps]
       \<and> fst (pureFinalPropsSelector exampleArgs (JNum 0) (JObj 9 []) exampleState) =
       JObj 6 [(''s'', JObj 2 [(''even'', JBool True)]),
               (''d'', JObj 5 [(''send'', JFunc 0), (''to'', JObj 9 [])]),
               (''o'', JObj 9 [])]"
    using pureFinalPropsSelector_invalidation_matrix [OF h, of exampleArgs "JObj 9 []" "JNum 0"] props_only
    by (simp add: ex Let_def)
  have c5: "invoked (snd (pureFinalPropsSelector exampleArgs (JNum 1) (JObj 9 []) exampleState)) =
       invoked exampleState @ [MapStateToProps, MapDispatchToProps, MergeProps]
       \<and> fst (pureFinalPropsSelector exampleArgs (JNum 1) (JObj 9 []) exampleState) =
       JObj 7 [(''s'', JObj 5 [(''even'', JBool False)]),
               (''d'', JObj 6 [(''send'', JFunc 0), (''to'', JObj 9 [])]),
               (''o'', JObj 9 [])]
       \<and> world (snd (pureFinalPropsSelector exampleArgs (JNum 1) (JObj 9 []) exampleState)) = 8"
    using pureFinalPropsSelector_invalidation_matrix [OF h, of exampleArgs "JObj 9 []" "JNum 1"] both
    by (simp add: ex Let_def)
  from h c1 c2 c3 c4 c5 show ?thesis by blast
qed

section \<open>Properties of the selector hook\<close>

lemma errorMessage_contains_message: "sublist (message err) (errorMessage err previous)"
proof -
  have "errorMessage err previous =
          ''An error occured while selecting the store state: '' @ message err @
          (''.'' @ (case previous of None \<Rightarrow> [] | Some prev \<Rightarrow>
              [CHR 0x0A] @ ''The error may be correlated with this previous error:'' @ [CHR 0x0A]
              @ stack prev @ [CHR 0x0A, CHR 0x0A] @ ''Original stack trace:''))"
    by (simp add: errorMessage_def)
  then show ?thesis
    by (metis sublist_appendI)
qed

lemma errorMessage_contains_stack: "sublist (stack prev) (errorMessage err (Some prev))"
proof -
  have "errorMessage err (Some prev) =
          (''An error occured while selecting the store state: '' @ message err @ ''.'' @
           [CHR 0x0A] @ ''The error may be correlated with this previous error:'' @ [CHR 0x0A])
          @ stack prev @ ([CHR 0x0A, CHR 0x0A] @ ''Original stack trace:'')"
    by (simp add: errorMessage_def)
  then show ?thesis
    by (metis sublist_appendI)
qed

text \<open>
  C3. In a render pass, if the selector is the function object recorded at the last commit
  and no subscription-detected error is stored, the cached selected value is returned and
  the selector is not invoked (the hook state, with its call log, is unchanged). If the
  selector reference changed or an error is stored, the selector is invoked once, on the
  current store state. A commit records the selector and the selected value and clears
  the error.
\<close>

theorem useSelector_render_read:
  "(\<not> selectorChanged sel h \<and> latestSubscriptionCallbackError h = None \<longrightarrow>
      useSelector (Some sel) s h = (Inr (latestSelectedState h), h))
   \<and> (selectorChanged sel h \<or> latestSubscriptionCallbackError h \<noteq> None \<longrightarrow>
      selectorCalls (snd (useSelector (Some sel) s h)) = selectorCalls h @ [(sel_ref sel, s)]
      \<and> fst (useSelector (Some sel) s h) =
          (case sel_body sel s of
             Inr v \<Rightarrow> Inr v
           | Inl err \<Rightarrow> Inl (errorMessage err (latestSubscriptionCallbackError h))))
   \<and> (selectorChanged sel (commitEffect sel0 v0 h0) \<longleftrightarrow> sel_ref sel \<noteq> sel_ref sel0)
   \<and> latestSubscriptionCallbackError (commitEffect sel0 v0 h0) = None
   \<and> latestSelectedState (commitEffect sel0 v0 h0) = v0"
  by (auto simp: useSelector_def callSelector_def selectorChanged_def commitEffect_def
      split: sum.splits)

text \<open>
  C8. When the selector throws during a render pass, the hook throws an error whose
  message contains the message of the thrown error and, if a subscription-detected error
  is stored, the stack of that previous error as well.
\<close>

theorem useSelector_error_message:
  assumes "selectorChanged sel h \<or> latestSubscriptionCallbackError h \<noteq> None"
    and "sel_body sel s = Inl err"
  shows "fst (useSelector (Some sel) s h) =
           Inl (errorMessage err (latestSubscriptionCallbackError h))
         \<and> sublist (message err) (errorMessage err (latestSubscriptionCallbackError h))
         \<and> (\<forall>prev. latestSubscriptionCallbackError h = Some prev \<longrightarrow>
               sublist (stack prev) (errorMessage err (latestSubscriptionCallbackError h)))"
proof -
  have "fst (useSelector (Some sel) s h) =
           Inl (errorMessage err (latestSubscriptionCallbackError h))"
    using assms by (auto simp: useSelector_def callSelector_def)
  then show ?thesis
    by (auto simp: errorMessage_contains_message errorMessage_contains_stack)
qed

text \<open>
  C2. On a store notification, \<open>checkForUpdates\<close> applies the selector of the last
  commit to the current store state. If \<open>equalityFn\<close> of the new and the cached value
  is true, the cached value stays and no re-render is requested; if it is false, the
  cached value becomes the new value and exactly one re-render is requested.
\<close>

theorem checkForUpdates_change_propagation:
  assumes "latestSelector h = Some sel"
    and "sel_body sel s = Inr v"
    and "equalityFn v (latestSelectedState h) = Inr b"
  shows "selectorCalls (checkForUpdates equalityFn s h) = selectorCalls h @ [(sel_ref sel, s)]
         \<and> (b \<longrightarrow> checkForUpdates equalityFn s h =
                    h\<lparr> selectorCalls := selectorCalls h @ [(sel_ref sel, s)] \<rparr>)
         \<and> (\<not> b \<longrightarrow> checkForUpdates equalityFn s h =
                    h\<lparr> selectorCalls := selectorCalls h @ [(sel_ref sel, s)],
                       latestSelectedState := v,
                       renderRequests := Suc (renderRequests h) \<rparr>)"
  using assms
  by (cases b) (simp_all add: checkForUpdates_def callSelector_def forceRender_def)

text \<open>
  C9. When the selector throws inside \<open>checkForUpdates\<close>, the error is stored in
  \<open>latestSubscriptionCallbackError\<close>, the cached selected value is unchanged and one
  re-render is requested. The next render pass then invokes its selector whatever its
  reference is, and if that selector throws, the message of the error the hook throws is
  built from the stored error.
\<close>

theorem checkForUpdates_selector_throws:
  assumes "latestSelector h = Some sel"
    and "sel_body sel s = Inl err"
  shows "checkForUpdates equalityFn s h =
           h\<lparr> selectorCalls := selectorCalls h @ [(sel_ref sel, s)],
              latestSubscriptionCallbackError := Some err,
              renderRequests := Suc (renderRequests h) \<rparr>
         \<and> latestSelectedState (checkForUpdates equalityFn s h) = latestSelectedState h
         \<and> (\<forall>sel' s'.
               selectorCalls (snd (useSelector (Some sel') s' (checkForUpdates equalityFn s h))) =
                 selectorCalls (checkForUpdates equalityFn s h) @ [(sel_ref sel', s')]
               \<and> (\<forall>err'. sel_body sel' s' = Inl err' \<longrightarrow>
                    fst (useSelector (Some sel') s' (checkForUpdates equalityFn s h)) =
                      Inl (errorMessage err' (Some err))))"
proof -
  have eq: "checkForUpdates equalityFn s h =
           h\<lparr> selectorCalls := selectorCalls h @ [(sel_ref sel, s)],
              latestSubscriptionCallbackError := Some err,
              renderRequests := Suc (renderRequests h) \<rparr>"
    using assms by (simp add: checkForUpdates_def callSelector_def forceRender_def)
  show ?thesis
    unfolding eq
    by (auto simp: useSelector_def callSelector_def split: sum.splits)
qed

lemma exampleHook_simps:
  "latestSelector exampleHook = Some countSelector"
  "latestSelectedState exampleHook = JNum 0"
  "latestSubscriptionCallbackError exampleHook = None"
  "renderRequests exampleHook = 0"
  by (simp_all add: exampleHook_def mount_def useSelector_def selectorChanged_def initHook_def
      callSelector_def countSelector_def commitEffect_def checkForUpdates_def refEquality_def)

lemma countSelector_simps:
  "sel_ref countSelector = 1"
  "sel_body countSelector = getCount"
  "sel_ref otherSelector = 2"
  "sel_body otherSelector = getCount"
  by (simp_all add: countSelector_def otherSelector_def)

lemma failedHook_simps:
  "latestSelector failedHook = Some countSelector"
  "latestSelectedState failedHook = JNum 0"
  "latestSubscriptionCallbackError failedHook = Some nullError"
  "renderRequests failedHook = 1"
  by (simp_all add: failedHook_def checkForUpdates_def exampleHook_simps callSelector_def
      countSelector_simps forceRender_def)

theorem useSelector_render_read_witness:
  "\<not> selectorChanged countSelector exampleHook
   \<and> latestSubscriptionCallbackError exampleHook = None
   \<and> useSelector (Some countSelector) (JObj 11 [(''count'', JNum 5)]) exampleHook =
       (Inr (JNum 0), exampleHook)
   \<and> selectorChanged otherSelector exampleHook
   \<and> selectorCalls (snd (useSelector (Some otherSelector) (JObj 11 [(''count'', JNum 5)])
                          exampleHook)) =
       selectorCalls exampleHook @ [(2, JObj 11 [(''count'', JNum 5)])]
   \<and> fst (useSelector (Some otherSelector) (JObj 11 [(''count'', JNum 5)]) exampleHook) =
       Inr (JNum 5)
   \<and> latestSubscriptionCallbackError failedHook \<noteq> None
   \<and> selectorCalls (snd (useSelector (Some countSelector) (JObj 11 [(''count'', JNum 5)])
                          failedHook)) =
       selectorCalls failedHook @ [(1, JObj 11 [(''count'', JNum 5)])]"
proof -
  note ex = exampleHook_simps failedHook_simps countSelector_simps
  have same: "\<not> selectorChanged countSelector exampleHook
              \<and> latestSubscriptionCallbackError exampleHook = None"
    by (simp add: selectorChanged_def ex)
  have changed: "selectorChanged otherSelector exampleHook"
    by (simp add: selectorChanged_def ex)
  have failed: "latestSubscriptionCallbackError failedHook \<noteq> None"
    by (simp add: ex)
  have c1: "useSelector (Some countSelector) (JObj 11 [(''count'', JNum 5)]) exampleHook =
       (Inr (JNum 0), exampleHook)"
    using useSelector_render_read [of countSelector exampleHook "JObj 11 [(''count'', JNum 5)]"] same
    by (simp add: ex)
  have c2: "selectorCalls (snd (useSelector (Some otherSelector) (JObj 11 [(''count'', JNum 5)])
                          exampleHook)) =
       selectorCalls exampleHook @ [(2, JObj 11 [(''count'', JNum 5)])]
     \<and> fst (useSelector (Some otherSelector) (JObj 11 [(''count'', JNum 5)]) exampleHook) =
       Inr (JNum 5)"
    using useSelector_render_read [of otherSelector exampleHook "JObj 11 [(''count'', JNum 5)]"] changed
    by (simp add: ex)
  have c3: "selectorCalls (snd (useSelector (Some countSelector) (JObj 11 [(''count'', JNum 5)])
                          failedHook)) =
       selectorCalls failedHook @ [(1, JObj 11 [(''count'', JNum 5)])]"
    using useSelector_render_read [of countSelector failedHook "JObj 11 [(''count'', JNum 5)]"] failed
    by (simp add: ex)
  from same changed failed c1 c2 c3 show ?thesis by blast
qed

theorem useSelector_error_message_witness:
  "(selectorChanged countSelector failedHook
      \<or> latestSubscriptionCallbackError failedHook \<noteq> None)
   \<and> sel_body countSelector JNull = Inl nullError
   \<and> fst (useSelector (Some countSelector) JNull failedHook) =
       Inl (''An error occured while selecting the store state: '' @
            ''Cannot read properties of null'' @ ''.'' @ [CHR 0x0A] @
            ''The error may be correlated with this previous error:'' @ [CHR 0x0A] @
            ''TypeError: Cannot read properties of null at getCount'' @
            [CHR 0x0A, CHR 0x0A] @ ''Original stack trace:'')
   \<and> sublist ''Cannot read properties of null''
        (errorMessage nullError (Some nullError))
   \<and> sublist ''TypeError: Cannot read properties of null at getCount''
        (errorMessage nullError (Some nullError))"
proof -
  have h1: "selectorChanged countSelector failedHook
            \<or> latestSubscriptionCallbackError failedHook \<noteq> None"
    by (simp add: failedHook_simps)
  have h2: "sel_body countSelector JNull = Inl nullError"
    by (simp add: countSelector_simps)
  note t = useSelector_error_message [OF h1 h2]
  have m: "message nullError = ''Cannot read properties of null''"
          "stack nullError = ''TypeError: Cannot read properties of null at getCount''"
    by (simp_all add: nullError_def)
  have c1: "fst (useSelector (Some countSelector) JNull failedHook) =
       Inl (''An error occured while selecting the store state: '' @
            ''Cannot read properties of null'' @ ''.'' @ [CHR 0x0A] @
            ''The error may be correlated with this previous error:'' @ [CHR 0x0A] @
            ''TypeError: Cannot read properties of null at getCount'' @
            [CHR 0x0A, CHR 0x0A] @ ''Original stack trace:'')"
    using t [THEN conjunct1] by (simp add: failedHook_simps errorMessage_def m)
  have c2: "sublist ''Cannot read properties of null''
              (errorMessage nullError (Some nullError))"
    using t [THEN conjunct2, THEN conjunct1] by (simp only: failedHook_simps m)
  have c3: "sublist ''TypeError: Cannot read properties of null at getCount''
              (errorMessage nullError (Some nullError))"
    using t [THEN conjunct2, THEN conjunct2, rule_format, of nullError]
    by (simp only: failedHook_simps m)
  from h1 h2 c1 c2 c3 show ?thesis by blast
qed

theorem checkForUpdates_change_propagation_witness:
  "latestSelector exampleHook = Some countSelector
   \<and> sel_body countSelector (JObj 11 [(''count'', JNum 0)]) = Inr (JNum 0)
   \<and> refEquality (JNum 0) (latestSelectedState exampleHook) = Inr True
   \<and> checkForUpdates refEquality (JObj 11 [(''count'', JNum 0)]) exampleHook =
       exampleHook\<lparr> selectorCalls :=
                      selectorCalls exampleHook @ [(1, JObj 11 [(''count'', JNum 0)])] \<rparr>
   \<and> sel_body countSelector (JObj 12 [(''count'', JNum 1)]) = Inr (JNum 1)
   \<and> refEquality (JNum 1) (latestSelectedState exampleHook) = Inr False
   \<and> latestSelectedState
        (checkForUpdates refEquality (JObj 12 [(''count'', JNum 1)]) exampleHook) = JNum 1
   \<and> renderRequests
        (checkForUpdates refEquality (JObj 12 [(''count'', JNum 1)]) exampleHook) = 1"
proof -
  note ex = exampleHook_simps countSelector_simps
  have h1: "latestSelector exampleHook = Some countSelector"
    by (simp add: ex)
  have a2: "sel_body countSelector (JObj 11 [(''count'', JNum 0)]) = Inr (JNum 0)"
    by (simp add: ex)
  have a3: "refEquality (JNum 0) (latestSelectedState exampleHook) = Inr True"
    by (simp add: ex refEquality_def)
  have b2: "sel_body countSelector (JObj 12 [(''count'', JNum 1)]) = Inr (JNum 1)"
    by (simp add: ex)
  have b3: "refEquality (JNum 1) (latestSelectedState exampleHook) = Inr False"
    by (simp add: ex refEquality_def)
  have c1: "checkForUpdates refEquality (JObj 11 [(''count'', JNum 0)]) exampleHook =
       exampleHook\<lparr> selectorCalls :=
                      selectorCalls exampleHook @ [(1, JObj 11 [(''count'', JNum 0)])] \<rparr>"
    using checkForUpdates_change_propagation [where equalityFn = refEquality, OF h1 a2 a3]
    by (simp add: ex)
  have c2: "latestSelectedState
        (checkForUpdates refEquality (JObj 12 [(''count'', JNum 1)]) exampleHook) = JNum 1
   \<and> renderRequests
        (checkForUpdates refEquality (JObj 12 [(''count'', JNum 1)]) exampleHook) = 1"
    using checkForUpdates_change_propagation [where equalityFn = refEquality, OF h1 b2 b3]
    by (simp add: ex)
  from h1 a2 a3 b2 b3 c1 c2 show ?thesis by blast
qed

theorem checkForUpdates_selector_throws_witness:
  "latestSelector exampleHook = Some countSelector
   \<and> sel_body countSelector JNull = Inl nullError
   \<and> latestSubscriptionCallbackError (checkForUpdates refEquality JNull exampleHook) =
       Some nullError
   \<and> latestSelectedState (checkForUpdates refEquality JNull exampleHook) = JNum 0
   \<and> renderRequests (checkForUpdates refEquality JNull exampleHook) = 1
   \<and> fst (useSelector (Some countSelector) JNull
            (checkForUpdates refEquality JNull exampleHook)) =
       Inl (errorMessage nullError (Some nullError))"
proof -
  note ex = exampleHook_simps countSelector_simps
  have h1: "latestSelector exampleHook = Some countSelector"
    by (simp add: ex)
  have h2: "sel_body countSelector JNull = Inl nullError"
    by (simp add: ex)
  note t = checkForUpdates_selector_throws [OF h1 h2, of refEquality]
  have c1: "latestSubscriptionCallbackError (checkForUpdates refEquality JNull exampleHook) =
       Some nullError
   \<and> latestSelectedState (checkForUpdates refEquality JNull exampleHook) = JNum 0
   \<and> renderRequests (checkForUpdates refEquality JNull exampleHook) = 1"
    using t [THEN conjunct1] t [THEN conjunct2, THEN conjunct1] by (simp add: ex)
  have c2: "fst (useSelector (Some countSelector) JNull
            (checkForUpdates refEquality JNull exampleHook)) =
       Inl (errorMessage nullError (Some nullError))"
    using t [THEN conjunct2, THEN conjunct2, rule_format, of countSelector JNull,
             THEN conjunct2, rule_format, of nullError] h2
    by blast
  from h1 h2 c1 c2 show ?thesis by blast
qed

end
